theory Spec2Isabelle
  imports Complex_Main "HOL-Library.Multiset" "HOL-Library.Sublist" "HOL-Library.AList"
begin

section \<open>Data model\<close>

text \<open>
  The sole entity is \<^verbatim>\<open>FinanceRecord\<close> (declared identically in the hook, the
  dashboard and the list view). \<^verbatim>\<open>tipo\<close> is the string-literal union
  \<^verbatim>\<open>'gasto' | 'receita'\<close>; \<^verbatim>\<open>valor\<close> is a JavaScript number, held as the real
  number that the double denotes (NaN and the infinities are outside this embedding;
  the rounding of sums and differences of doubles is defined with the run time's
  numbers below); \<^verbatim>\<open>descricao\<close> is read with \<^verbatim>\<open>?.\<close> and \<^verbatim>\<open>|| ''\<close> in the list view, so it may be
  absent at run time and is an option here.
\<close>

datatype Tipo = Gasto | Receita

fun tipoString :: "Tipo \<Rightarrow> string" where
  "tipoString Gasto = ''gasto''"
| "tipoString Receita = ''receita''"

record FinanceRecord =
  id_num :: int
  data_hora :: string
  responsavel :: string
  categoria :: string
  tipo :: Tipo
  valor :: real
  descricao :: "string option"
  criado_em :: string

section \<open>The JavaScript run time: dates\<close>

text \<open>
  The filters build \<^verbatim>\<open>Date\<close> objects from the records' \<^verbatim>\<open>data_hora\<close> strings and from
  the date inputs, and read them in local time. The time value of a \<^verbatim>\<open>Date\<close> is a
  number of milliseconds since the epoch or NaN; here it is an \<open>int option\<close>, \<open>None\<close>
  being NaN (an invalid date). The definitions follow the abstract operations of the
  ECMAScript specification (Day, DayFromYear, YearFromTime, MonthFromTime, MakeDay,
  MakeTime, MakeDate, TimeClip, LocalTime, UTC).

  What the code does not fix is a parameter: the local time zone (\<open>LocalTZA t isUTC\<close>,
  the offset in milliseconds of local time from UTC) and the engine's
  implementation-defined parser for strings outside the ECMAScript date-time string
  format (\<open>legacyParse\<close>).
\<close>

record Runtime =
  LocalTZA :: "int \<Rightarrow> bool \<Rightarrow> int"
  legacyParse :: "string \<Rightarrow> int option"

definition msPerDay :: int where
  "msPerDay = 86400000"

definition Day :: "int \<Rightarrow> int" where
  "Day t = t div msPerDay"

definition DaysInYear :: "int \<Rightarrow> int" where
  "DaysInYear y =
     (if y mod 4 \<noteq> 0 then 365 else if y mod 100 \<noteq> 0 then 366
      else if y mod 400 \<noteq> 0 then 365 else 366)"

definition DayFromYear :: "int \<Rightarrow> int" where
  "DayFromYear y =
     365 * (y - 1970) + (y - 1969) div 4 - (y - 1901) div 100 + (y - 1601) div 400"

text \<open>
  YearFromTime is the largest \<open>y\<close> with \<open>DayFromYear y \<le> Day t\<close>: an estimate from the
  mean length of a year, corrected by at most one.
\<close>

definition YearFromTime :: "int \<Rightarrow> int" where
  "YearFromTime t =
     (let d = Day t; y = 1970 + (d * 400) div 146097
      in if d < DayFromYear y then y - 1
         else if DayFromYear (y + 1) \<le> d then y + 1 else y)"

definition InLeapYear :: "int \<Rightarrow> int" where
  "InLeapYear t = (if DaysInYear (YearFromTime t) = 366 then 1 else 0)"

definition DayWithinYear :: "int \<Rightarrow> int" where
  "DayWithinYear t = Day t - DayFromYear (YearFromTime t)"

definition MonthFromTime :: "int \<Rightarrow> int" where
  "MonthFromTime t =
     (let d = DayWithinYear t; leap = InLeapYear t
      in if d < 31 then 0
         else if d < 59 + leap then 1
         else if d < 90 + leap then 2
         else if d < 120 + leap then 3
         else if d < 151 + leap then 4
         else if d < 181 + leap then 5
         else if d < 212 + leap then 6
         else if d < 243 + leap then 7
         else if d < 273 + leap then 8
         else if d < 304 + leap then 9
         else if d < 334 + leap then 10
         else 11)"

text \<open>The number of days of the year before month \<open>m\<close> (0 to 11) begins.\<close>

definition daysBeforeMonth :: "int \<Rightarrow> int \<Rightarrow> int" where
  "daysBeforeMonth leap m =
     (if m = 0 then 0
      else if m = 1 then 31
      else if m = 2 then 59 + leap
      else if m = 3 then 90 + leap
      else if m = 4 then 120 + leap
      else if m = 5 then 151 + leap
      else if m = 6 then 181 + leap
      else if m = 7 then 212 + leap
      else if m = 8 then 243 + leap
      else if m = 9 then 273 + leap
      else if m = 10 then 304 + leap
      else 334 + leap)"

definition DateFromTime :: "int \<Rightarrow> int" where
  "DateFromTime t =
     DayWithinYear t - daysBeforeMonth (InLeapYear t) (MonthFromTime t) + 1"

definition DaysInMonth :: "int \<Rightarrow> int \<Rightarrow> int" where
  "DaysInMonth y m =
     (if m = 1 then DaysInYear y - 337
      else if m = 3 \<or> m = 5 \<or> m = 8 \<or> m = 10 then 30 else 31)"

definition MakeDay :: "int \<Rightarrow> int \<Rightarrow> int \<Rightarrow> int" where
  "MakeDay year month date =
     (let ym = year + month div 12; mn = month mod 12
      in DayFromYear ym + daysBeforeMonth (DaysInYear ym - 365) mn + date - 1)"

definition MakeTime :: "int \<Rightarrow> int \<Rightarrow> int \<Rightarrow> int \<Rightarrow> int" where
  "MakeTime hour mins sec ms = hour * 3600000 + mins * 60000 + sec * 1000 + ms"

definition MakeDate :: "int \<Rightarrow> int \<Rightarrow> int" where
  "MakeDate day time = day * msPerDay + time"

definition TimeClip :: "int \<Rightarrow> int option" where
  "TimeClip t = (if \<bar>t\<bar> > 8640000000000000 then None else Some t)"

definition LocalTime :: "Runtime \<Rightarrow> int \<Rightarrow> int" where
  "LocalTime rt t = t + LocalTZA rt t True"

definition UTC :: "Runtime \<Rightarrow> int \<Rightarrow> int" where
  "UTC rt t = t - LocalTZA rt t False"

subsection \<open>Date.parse on the date-time string format\<close>

definition isDigit :: "char \<Rightarrow> bool" where
  "isDigit c = (48 \<le> (of_char c :: nat) \<and> (of_char c :: nat) \<le> 57)"

definition digitValue :: "char \<Rightarrow> int" where
  "digitValue c = int (of_char c) - 48"

definition number :: "string \<Rightarrow> int option" where
  "number s =
     (if s \<noteq> [] \<and> list_all isDigit s
      then Some (foldl (\<lambda>n c. 10 * n + digitValue c) 0 s) else None)"

text \<open>\<^verbatim>\<open>YYYY-MM-DD\<close>, a day of the calendar: the day number since the epoch.\<close>

definition parseDatePart :: "string \<Rightarrow> int option" where
  "parseDatePart s =
     (if length s = 10 \<and> s ! 4 = CHR ''-'' \<and> s ! 7 = CHR ''-''
      then (case (number (take 4 s), number (take 2 (drop 5 s)), number (drop 8 s)) of
              (Some y, Some m, Some d) \<Rightarrow>
                if 1 \<le> m \<and> m \<le> 12 \<and> 1 \<le> d \<and> d \<le> DaysInMonth y (m - 1)
                then Some (MakeDay y (m - 1) d) else None
            | _ \<Rightarrow> None)
      else None)"

text \<open>\<^verbatim>\<open>HH:mm\<close>, \<^verbatim>\<open>HH:mm:ss\<close> or \<^verbatim>\<open>HH:mm:ss.sss\<close>: the milliseconds within the day.\<close>

definition parseTimePart :: "string \<Rightarrow> int option" where
  "parseTimePart s =
     (if (length s = 5 \<or> length s = 8 \<or> length s = 12) \<and> s ! 2 = CHR '':''
         \<and> (if length s \<ge> 8 then s ! 5 = CHR '':'' else True)
         \<and> (if length s = 12 then s ! 8 = CHR ''.'' else True)
      then (case (number (take 2 s), number (take 2 (drop 3 s)),
                  if length s \<ge> 8 then number (take 2 (drop 6 s)) else Some 0,
                  if length s = 12 then number (drop 9 s) else Some 0) of
              (Some h, Some m, Some sec, Some ms) \<Rightarrow>
                if h \<le> 23 \<and> m \<le> 59 \<and> sec \<le> 59 then Some (MakeTime h m sec ms) else None
            | _ \<Rightarrow> None)
      else None)"

text \<open>\<^verbatim>\<open>+HH:mm\<close> or \<^verbatim>\<open>-HH:mm\<close>: the offset from UTC in milliseconds.\<close>

definition parseOffset :: "string \<Rightarrow> int option" where
  "parseOffset s =
     (if length s = 6 \<and> (s ! 0 = CHR ''+'' \<or> s ! 0 = CHR ''-'') \<and> s ! 3 = CHR '':''
      then (case (number (take 2 (drop 1 s)), number (drop 4 s)) of
              (Some h, Some m) \<Rightarrow>
                if h \<le> 23 \<and> m \<le> 59
                then Some ((if s ! 0 = CHR ''-'' then - 1 else 1) * MakeTime h m 0 0)
                else None
            | _ \<Rightarrow> None)
      else None)"

text \<open>
  The date-time string format. When the offset is absent, a date-only form is a UTC
  time and a date-time form is a local time. \<open>None\<close> means that the string is not of the
  format (as far as it is modelled here: four-digit years, no \<^verbatim>\<open>24:00\<close>).
\<close>

definition parseDateTimeString :: "Runtime \<Rightarrow> string \<Rightarrow> int option" where
  "parseDateTimeString rt s =
     (case parseDatePart (take 10 s) of
        None \<Rightarrow> None
      | Some day \<Rightarrow>
          if length s = 10 then Some (MakeDate day 0)
          else if s ! 10 \<noteq> CHR ''T'' then None
          else
            (let rest = drop 11 s;
                 inTime = (\<lambda>c. isDigit c \<or> c = CHR '':'' \<or> c = CHR ''.'');
                 zone = dropWhile inTime rest
             in case parseTimePart (takeWhile inTime rest) of
                  None \<Rightarrow> None
                | Some time \<Rightarrow>
                    if zone = [] then Some (UTC rt (MakeDate day time))
                    else if zone = ''Z'' then Some (MakeDate day time)
                    else (case parseOffset zone of
                            None \<Rightarrow> None
                          | Some off \<Rightarrow> Some (MakeDate day time - off))))"

text \<open>
  \<^verbatim>\<open>new Date(s)\<close> for a string \<open>s\<close>: the time value of the new object. A string that
  is not of the format goes to the engine's own parser.
\<close>

definition Date_new :: "Runtime \<Rightarrow> string \<Rightarrow> int option" where
  "Date_new rt s =
     (case parseDateTimeString rt s of
        Some t \<Rightarrow> TimeClip t
      | None \<Rightarrow> Option.bind (legacyParse rt s) TimeClip)"

text \<open>
  \<^verbatim>\<open>getMonth()\<close>, \<^verbatim>\<open>getFullYear()\<close> and \<^verbatim>\<open>getDate()\<close> read local time and give NaN
  on an invalid date. NaN is strictly equal to no number, as \<open>None\<close> is equal to no \<open>Some n\<close>.
\<close>

definition getMonth :: "Runtime \<Rightarrow> int option \<Rightarrow> int option" where
  "getMonth rt d = map_option (\<lambda>t. MonthFromTime (LocalTime rt t)) d"

definition getFullYear :: "Runtime \<Rightarrow> int option \<Rightarrow> int option" where
  "getFullYear rt d = map_option (\<lambda>t. YearFromTime (LocalTime rt t)) d"

definition getDate :: "Runtime \<Rightarrow> int option \<Rightarrow> int option" where
  "getDate rt d = map_option (\<lambda>t. DateFromTime (LocalTime rt t)) d"

text \<open>
  The relational operators on two \<^verbatim>\<open>Date\<close> objects compare the time values; a
  comparison with NaN is false.
\<close>

definition date_ge :: "int option \<Rightarrow> int option \<Rightarrow> bool" where
  "date_ge a b = (case (a, b) of (Some x, Some y) \<Rightarrow> x \<ge> y | _ \<Rightarrow> False)"

definition date_le :: "int option \<Rightarrow> int option \<Rightarrow> bool" where
  "date_le a b = (case (a, b) of (Some x, Some y) \<Rightarrow> x \<le> y | _ \<Rightarrow> False)"

section \<open>The JavaScript run time: numbers\<close>









section \<open>The JavaScript run time: strings, sorting, objects\<close>

text \<open>
  A JavaScript string is a sequence of code units. A \<open>string\<close> here is a sequence of
  8-bit characters, read as the code units below 256 (Latin-1, which holds the
  Portuguese alphabet). On these \<^verbatim>\<open>toLowerCase\<close> maps each character by itself:
  \<^verbatim>\<open>A\<close> to \<^verbatim>\<open>Z\<close> and the accented capitals 192 to 222, the multiplication sign 215
  apart, move up by 32.
\<close>

definition toLowerChar :: "char \<Rightarrow> char" where
  "toLowerChar c =
     (let n = (of_char c :: nat)
      in if (65 \<le> n \<and> n \<le> 90) \<or> (192 \<le> n \<and> n \<le> 222 \<and> n \<noteq> 215)
         then char_of (n + 32) else c)"

definition toLowerCase :: "string \<Rightarrow> string" where
  "toLowerCase s = map toLowerChar s"

text \<open>\<^verbatim>\<open>s.includes(q)\<close>: \<open>q\<close> occurs in \<open>s\<close> at some position.\<close>

fun str_includes :: "string \<Rightarrow> string \<Rightarrow> bool" where
  "str_includes [] q = (q = [])"
| "str_includes (c # cs) q = (prefix q (c # cs) \<or> str_includes cs q)"

text \<open>
  \<^verbatim>\<open>Array.prototype.sort(comparefn)\<close>. A comparator gives a number or NaN (\<open>None\<close>),
  and NaN counts as 0. The sort is stable; with a consistent comparator its result is
  the same for every algorithm, and it is computed here by insertion from the right.
  With an inconsistent comparator the order is implementation-defined in JavaScript,
  and this is one of the permitted outcomes.
\<close>

definition sortCompare :: "('a \<Rightarrow> 'a \<Rightarrow> real option) \<Rightarrow> 'a \<Rightarrow> 'a \<Rightarrow> real" where
  "sortCompare comparefn x y = (case comparefn x y of None \<Rightarrow> 0 | Some v \<Rightarrow> v)"

fun insertBy :: "('a \<Rightarrow> 'a \<Rightarrow> real option) \<Rightarrow> 'a \<Rightarrow> 'a list \<Rightarrow> 'a list" where
  "insertBy comparefn x [] = [x]"
| "insertBy comparefn x (y # ys) =
     (if sortCompare comparefn x y > 0 then y # insertBy comparefn x ys else x # y # ys)"

definition Array_sort :: "('a \<Rightarrow> 'a \<Rightarrow> real option) \<Rightarrow> 'a list \<Rightarrow> 'a list" where
  "Array_sort comparefn xs = foldr (insertBy comparefn) xs []"

text \<open>
  An object created by \<^verbatim>\<open>{}\<close> and used as a dictionary: its own properties, in the
  order of their creation, as an association list. Reading \<^verbatim>\<open>acc[key]\<close> finds an own
  property, or else a property inherited from \<^verbatim>\<open>Object.prototype\<close> (a function, or
  the prototype itself for \<^verbatim>\<open>__proto__\<close>: truthy values), or else \<^verbatim>\<open>undefined\<close>.
\<close>

type_synonym 'v JSObject = "(string \<times> 'v) list"

datatype 'v lookup = Own 'v | Inherited | Undefined

definition objectPrototypeKeys :: "string list" where
  "objectPrototypeKeys =
     [''constructor'', ''__defineGetter__'', ''__defineSetter__'', ''hasOwnProperty'',
      ''__lookupGetter__'', ''__lookupSetter__'', ''isPrototypeOf'',
      ''propertyIsEnumerable'', ''toString'', ''valueOf'', ''__proto__'',
      ''toLocaleString'']"

definition jsGet :: "'v JSObject \<Rightarrow> string \<Rightarrow> 'v lookup" where
  "jsGet obj key =
     (case map_of obj key of
        Some v \<Rightarrow> Own v
      | None \<Rightarrow> if key \<in> set objectPrototypeKeys then Inherited else Undefined)"

text \<open>
  An array index is the canonical decimal string of an integer from 0 to \<open>2^32 - 2\<close>.
  \<^verbatim>\<open>Object.values\<close> lists the values of the own properties: first those whose key is
  an array index, in ascending numeric order, then the others in creation order.
\<close>

definition isArrayIndex :: "string \<Rightarrow> bool" where
  "isArrayIndex key =
     (case number key of
        None \<Rightarrow> False
      | Some n \<Rightarrow> (key = ''0'' \<or> take 1 key \<noteq> ''0'') \<and> n \<le> 4294967294)"

definition arrayIndex :: "string \<Rightarrow> int" where
  "arrayIndex key = (case number key of None \<Rightarrow> 0 | Some n \<Rightarrow> n)"

definition Object_values :: "'v JSObject \<Rightarrow> 'v list" where
  "Object_values obj =
     map snd (sort_key (\<lambda>p. arrayIndex (fst p)) (filter (\<lambda>p. isArrayIndex (fst p)) obj)
              @ filter (\<lambda>p. \<not> isArrayIndex (fst p)) obj)"

section \<open>The record store hook: deleteRecord\<close>

text \<open>
  \<^verbatim>\<open>useFinanceRecords\<close> keeps the local collection in React state and reports through
  toasts. The collaborator's answer to the delete request is an input of the model:
  \<open>None\<close> when the request succeeded, \<open>Some e\<close> when it returned or threw the error
  \<open>e\<close>. The result pairs what the promise settles to (\<open>Inl e\<close>: rejected with \<open>e\<close>)
  with the new state.
\<close>

datatype StoreError = StoreError string

datatype Toast = RegistroExcluido | ErroExcluir

record HookState =
  records :: "FinanceRecord list"
  toasts :: "Toast list"

definition deleteRecord ::
  "StoreError option \<Rightarrow> int \<Rightarrow> HookState \<Rightarrow> (StoreError + unit) \<times> HookState" where
  "deleteRecord response i st =
     (case response of
        Some err \<Rightarrow> (Inl err, st\<lparr>toasts := toasts st @ [ErroExcluir]\<rparr>)
      | None \<Rightarrow>
          (Inr (),
           st\<lparr>records := filter (\<lambda>r. id_num r \<noteq> i) (records st),
              toasts := toasts st @ [RegistroExcluido]\<rparr>))"

text \<open>
  \<^verbatim>\<open>handleDeleteRecord\<close> of the page that uses the hook: nothing happens unless the
  user confirms; a rejection of \<^verbatim>\<open>deleteRecord\<close> is caught and only logged.
\<close>

definition handleDeleteRecord ::
  "bool \<Rightarrow> StoreError option \<Rightarrow> int \<Rightarrow> HookState \<Rightarrow> HookState" where
  "handleDeleteRecord confirmed response i st =
     (if confirmed then snd (deleteRecord response i st) else st)"

text \<open>
  \<^verbatim>\<open>handleDeleteRecord\<close> of the sample-data page: there is no collaborator, the
  removal is applied to the local collection directly.
\<close>

definition handleDeleteRecord_sample :: "bool \<Rightarrow> int \<Rightarrow> HookState \<Rightarrow> HookState" where
  "handleDeleteRecord_sample confirmed i st =
     (if confirmed
      then st\<lparr>records := filter (\<lambda>r. id_num r \<noteq> i) (records st),
              toasts := toasts st @ [RegistroExcluido]\<rparr>
      else st)"

section \<open>Dashboard: the period filter\<close>

text \<open>
  \<^verbatim>\<open>filteredRecords\<close> of the dashboard. \<open>now\<close> is the time value of \<^verbatim>\<open>new Date()\<close>, the
  wall clock at the call, which is never NaN. The \<^verbatim>\<open>switch\<close> compares the selector
  with the three literals in order and falls to \<^verbatim>\<open>default\<close> otherwise.
\<close>

definition filteredRecords_Dashboard ::
  "Runtime \<Rightarrow> int \<Rightarrow> FinanceRecord list \<Rightarrow> string \<Rightarrow> FinanceRecord list" where
  "filteredRecords_Dashboard rt now recs selectedPeriod =
     (let currentMonth = MonthFromTime (LocalTime rt now);
          currentYear = YearFromTime (LocalTime rt now)
      in filter
           (\<lambda>record.
              let recordDate = Date_new rt (data_hora record)
              in if selectedPeriod = ''current-month'' then
                   getMonth rt recordDate = Some currentMonth
                   \<and> getFullYear rt recordDate = Some currentYear
                 else if selectedPeriod = ''last-month'' then
                   (let lastMonth = (if currentMonth = 0 then 11 else currentMonth - 1);
                        lastMonthYear = (if currentMonth = 0 then currentYear - 1
                                         else currentYear)
                    in getMonth rt recordDate = Some lastMonth
                       \<and> getFullYear rt recordDate = Some lastMonthYear)
                 else if selectedPeriod = ''current-year'' then
                   getFullYear rt recordDate = Some currentYear
                 else True)
           recs)"

section \<open>Aggregator: summary totals\<close>



section \<open>Aggregator: category and responsible-party grouping\<close>




record ResponsibleTotal =
  resp_name :: string
  resp_receitas :: real
  resp_gastos :: real

definition responsibleStep ::
  "ResponsibleTotal JSObject \<Rightarrow> FinanceRecord \<Rightarrow> ResponsibleTotal JSObject" where
  "responsibleStep acc record =
     (let key = responsavel record;
          acc1 = (if jsGet acc key = Undefined
                  then AList.update key
                         \<lparr>resp_name = responsavel record, resp_receitas = 0, resp_gastos = 0\<rparr>
                         acc
                  else acc)
      in case jsGet acc1 key of
           Own g \<Rightarrow>
             if tipo record = Receita
             then AList.update key (g\<lparr>resp_receitas := resp_receitas g + valor record\<rparr>) acc1
             else AList.update key (g\<lparr>resp_gastos := resp_gastos g + valor record\<rparr>) acc1
         | _ \<Rightarrow> acc1)"

definition responsibleData :: "FinanceRecord list \<Rightarrow> ResponsibleTotal list" where
  "responsibleData filteredRecords =
     (let responsibleTotals = foldl responsibleStep [] filteredRecords
      in Object_values responsibleTotals)"

section \<open>Records list: the search and attribute filter\<close>

record ListFilters =
  searchTerm :: string
  filterType :: string
  filterResponsible :: string
  filterCategory :: string
  dateFrom :: string
  dateTo :: string

text \<open>
  \<^verbatim>\<open>record.descricao?.toLowerCase().includes(...)\<close> is \<^verbatim>\<open>undefined\<close> when the
  description is absent, and \<^verbatim>\<open>undefined\<close> is falsy in the chain of \<^verbatim>\<open>||\<close>.
\<close>

definition truthy :: "bool option \<Rightarrow> bool" where
  "truthy v = (v = Some True)"

definition matchesSearch :: "string \<Rightarrow> FinanceRecord \<Rightarrow> bool" where
  "matchesSearch st record =
     (st = ''''
      \<or> truthy (map_option (\<lambda>d. str_includes (toLowerCase d) (toLowerCase st))
                  (descricao record))
      \<or> str_includes (toLowerCase (responsavel record)) (toLowerCase st)
      \<or> str_includes (toLowerCase (categoria record)) (toLowerCase st))"

definition matchesType :: "string \<Rightarrow> FinanceRecord \<Rightarrow> bool" where
  "matchesType ft record = (ft = ''all'' \<or> tipoString (tipo record) = ft)"

definition matchesResponsible :: "string \<Rightarrow> FinanceRecord \<Rightarrow> bool" where
  "matchesResponsible fr record = (fr = ''all'' \<or> responsavel record = fr)"

definition matchesCategory :: "string \<Rightarrow> FinanceRecord \<Rightarrow> bool" where
  "matchesCategory fc record = (fc = ''all'' \<or> categoria record = fc)"

text \<open>\<^verbatim>\<open>!dateFrom\<close> holds of the empty string only.\<close>

definition matchesDateFrom :: "Runtime \<Rightarrow> string \<Rightarrow> FinanceRecord \<Rightarrow> bool" where
  "matchesDateFrom rt df record =
     (let recordDate = Date_new rt (data_hora record)
      in df = '''' \<or> date_ge recordDate (Date_new rt df))"

definition matchesDateTo :: "Runtime \<Rightarrow> string \<Rightarrow> FinanceRecord \<Rightarrow> bool" where
  "matchesDateTo rt dt record =
     (let recordDate = Date_new rt (data_hora record)
      in dt = '''' \<or> date_le recordDate (Date_new rt (dt @ ''T23:59:59'')))"

definition recordMatches :: "Runtime \<Rightarrow> ListFilters \<Rightarrow> FinanceRecord \<Rightarrow> bool" where
  "recordMatches rt f record =
     (matchesSearch (searchTerm f) record \<and> matchesType (filterType f) record
      \<and> matchesResponsible (filterResponsible f) record
      \<and> matchesCategory (filterCategory f) record
      \<and> matchesDateFrom rt (dateFrom f) record \<and> matchesDateTo rt (dateTo f) record)"

text \<open>
  The comparator \<^verbatim>\<open>new Date(b.data_hora).getTime() - new Date(a.data_hora).getTime()\<close>;
  a difference with NaN is NaN.
\<close>

definition compareDataHora :: "Runtime \<Rightarrow> FinanceRecord \<Rightarrow> FinanceRecord \<Rightarrow> real option" where
  "compareDataHora rt a b =
     (case (Date_new rt (data_hora b), Date_new rt (data_hora a)) of
        (Some tb, Some ta) \<Rightarrow> Some (real_of_int tb - real_of_int ta)
      | _ \<Rightarrow> None)"

definition filteredRecords_RecordsList ::
  "Runtime \<Rightarrow> FinanceRecord list \<Rightarrow> ListFilters \<Rightarrow> FinanceRecord list" where
  "filteredRecords_RecordsList rt recs f =
     Array_sort (compareDataHora rt) (filter (recordMatches rt f) recs)"

section \<open>Specification vocabulary\<close>


definition ci_substring :: "string \<Rightarrow> string \<Rightarrow> bool" where
  "ci_substring q s = sublist (toLowerCase q) (toLowerCase s)"

text \<open>
  The start and the end of a day in the specification's words. A date criterion is a
  day of the calendar, written \<^verbatim>\<open>YYYY-MM-DD\<close> as the date inputs of the list view give
  it. The day starts at 00:00:00 and ends at 23:59:59 of local time; the time values of
  these two instants are those of the local times, converted to UTC.
\<close>

definition startOfDay :: "Runtime \<Rightarrow> string \<Rightarrow> int option" where
  "startOfDay rt d =
     (case parseDatePart d of
        None \<Rightarrow> None
      | Some day \<Rightarrow> TimeClip (UTC rt (MakeDate day (MakeTime 0 0 0 0))))"

definition endOfDay :: "Runtime \<Rightarrow> string \<Rightarrow> int option" where
  "endOfDay rt d =
     (case parseDatePart d of
        None \<Rightarrow> None
      | Some day \<Rightarrow> TimeClip (UTC rt (MakeDate day (MakeTime 23 59 59 0))))"

text \<open>
  \<open>allCriteriaHold\<close> states the contract of the search and attribute filter in the
  specification's words: the free-text query matches when it is empty or is, ignoring
  case, a substring of the description, the responsible party or the category; kind,
  responsible party and category match exactly unless set to \<^verbatim>\<open>all\<close>; a start date,
  if present, admits the records whose timestamp is not earlier than the start of that
  day; an end date, if present, admits the records whose timestamp is not later than
  the end of that day.
\<close>

definition allCriteriaHold :: "Runtime \<Rightarrow> ListFilters \<Rightarrow> FinanceRecord \<Rightarrow> bool" where
  "allCriteriaHold rt f r =
     ((searchTerm f = ''''
       \<or> (case descricao r of None \<Rightarrow> False | Some d \<Rightarrow> ci_substring (searchTerm f) d)
       \<or> ci_substring (searchTerm f) (responsavel r)
       \<or> ci_substring (searchTerm f) (categoria r))
      \<and> (filterType f = ''all'' \<or> tipoString (tipo r) = filterType f)
      \<and> (filterResponsible f = ''all'' \<or> responsavel r = filterResponsible f)
      \<and> (filterCategory f = ''all'' \<or> categoria r = filterCategory f)
      \<and> (dateFrom f = ''''
          \<or> date_ge (Date_new rt (data_hora r)) (startOfDay rt (dateFrom f)))
      \<and> (dateTo f = ''''
          \<or> date_le (Date_new rt (data_hora r)) (endOfDay rt (dateTo f))))"

text \<open>
  The timestamp attribute of the data model: the \<^verbatim>\<open>data_hora\<close> of a record denotes a
  date and time, that is, it parses to a time value.
\<close>

definition hasTimestamp :: "Runtime \<Rightarrow> FinanceRecord \<Rightarrow> bool" where
  "hasTimestamp rt r = (Date_new rt (data_hora r) \<noteq> None)"







section \<open>Sample data\<close>

text \<open>
  A record from its fields, for writing concrete collections; the creation time is
  read by none of the computations here.
\<close>

definition mkRecord ::
  "int \<Rightarrow> string \<Rightarrow> string \<Rightarrow> string \<Rightarrow> Tipo \<Rightarrow> real \<Rightarrow> string option \<Rightarrow> FinanceRecord" where
  "mkRecord i d p c t v ds =
     \<lparr>id_num = i, data_hora = d, responsavel = p, categoria = c, tipo = t, valor = v,
      descricao = ds, criado_em = d\<rparr>"


definition clearFilters :: ListFilters where
  "clearFilters =
     \<lparr>searchTerm = '''', filterType = ''all'', filterResponsible = ''all'',
      filterCategory = ''all'', dateFrom = '''', dateTo = ''''\<rparr>"

text \<open>
  A run time for concrete evaluation: the fixed-offset zone UTC-03:00 (Brasilia), with an
  engine whose own parser rejects every string outside the date-time string format.
\<close>

definition rtBRT :: Runtime where
  "rtBRT = \<lparr>LocalTZA = (\<lambda>t isUTC. - 10800000), legacyParse = (\<lambda>s. None)\<rparr>"

section \<open>Properties of the summary totals\<close>




section \<open>Properties of deleteRecord\<close>

text \<open>
  Claim C9. After a delete for identifier \<open>i\<close> succeeds, the local collection holds no
  record with identifier \<open>i\<close> and keeps every record with another identifier (in place
  and in order), through the hook and through the sample page's direct removal alike;
  when the delete call fails, the local collection is unchanged and the error is
  passed on.
\<close>

theorem deleteRecord_local_collection:
  "fst (deleteRecord None i st) = Inr ()
   \<and> (\<forall>r \<in> set (records (snd (deleteRecord None i st))). id_num r \<noteq> i)
   \<and> filter (\<lambda>r. id_num r \<noteq> i) (records (snd (deleteRecord None i st)))
       = filter (\<lambda>r. id_num r \<noteq> i) (records st)
   \<and> records (handleDeleteRecord True None i st) = records (snd (deleteRecord None i st))
   \<and> records (handleDeleteRecord_sample True i st) = records (snd (deleteRecord None i st))
   \<and> fst (deleteRecord (Some e) i st) = Inl e
   \<and> records (snd (deleteRecord (Some e) i st)) = records st
   \<and> records (handleDeleteRecord True (Some e) i st) = records st"
  by (simp add: deleteRecord_def handleDeleteRecord_def handleDeleteRecord_sample_def)

theorem deleteRecord_local_collection_witness:
  "map id_num (records (snd (deleteRecord None 2
      \<lparr>records = [mkRecord 1 '''' ''a'' ''c'' Gasto 1 None,
                  mkRecord 2 '''' ''b'' ''c'' Gasto 2 None,
                  mkRecord 3 '''' ''a'' ''d'' Receita 3 None], toasts = []\<rparr>))) = [1, 3]
   \<and> map id_num (records (snd (deleteRecord (Some (StoreError ''offline'')) 2
      \<lparr>records = [mkRecord 1 '''' ''a'' ''c'' Gasto 1 None,
                  mkRecord 2 '''' ''b'' ''c'' Gasto 2 None,
                  mkRecord 3 '''' ''a'' ''d'' Receita 3 None], toasts = []\<rparr>))) = [1, 2, 3]"
  using deleteRecord_local_collection [of 2
      "\<lparr>records = [mkRecord 1 '''' ''a'' ''c'' Gasto 1 None,
                  mkRecord 2 '''' ''b'' ''c'' Gasto 2 None,
                  mkRecord 3 '''' ''a'' ''d'' Receita 3 None], toasts = []\<rparr>"
      "StoreError ''offline''"]
  by (simp add: deleteRecord_def mkRecord_def)

section \<open>The calendar of the date model\<close>

text \<open>
  \<open>YearFromTime t\<close> is the year in which the day of \<open>t\<close> lies: the year begins on or
  before that day and the next year begins after it. Since the years begin on
  increasing days, it is the largest such year, as ECMAScript defines it.
\<close>

lemma div_bounds:
  fixes x :: int
  shows "4 * (x div 4) \<le> x \<and> x \<le> 4 * (x div 4) + 3"
    and "100 * (x div 100) \<le> x \<and> x \<le> 100 * (x div 100) + 99"
    and "400 * (x div 400) \<le> x \<and> x \<le> 400 * (x div 400) + 399"
    and "146097 * (x div 146097) \<le> x \<and> x \<le> 146097 * (x div 146097) + 146096"
  by presburger+

lemma DayFromYear_bounds:
  "146097 * (y - 1970) - 506 \<le> 400 * DayFromYear y
   \<and> 400 * DayFromYear y \<le> 146097 * (y - 1970) + 589"
proof -
  define a where "a = (y - 1969) div 4"
  define b where "b = (y - 1901) div 100"
  define c where "c = (y - 1601) div 400"
  have "4 * a \<le> y - 1969 \<and> y - 1969 \<le> 4 * a + 3"
    unfolding a_def by (rule div_bounds)
  moreover have "100 * b \<le> y - 1901 \<and> y - 1901 \<le> 100 * b + 99"
    unfolding b_def by (rule div_bounds)
  moreover have "400 * c \<le> y - 1601 \<and> y - 1601 \<le> 400 * c + 399"
    unfolding c_def by (rule div_bounds)
  moreover have "DayFromYear y = 365 * (y - 1970) + a - b + c"
    by (simp add: DayFromYear_def a_def b_def c_def)
  ultimately show ?thesis
    by simp
qed

lemma YearFromTime_contains_day:
  "DayFromYear (YearFromTime t) \<le> Day t \<and> Day t < DayFromYear (YearFromTime t + 1)"
proof -
  define d where "d = Day t"
  define q where "q = (d * 400) div 146097"
  have q: "146097 * q \<le> 400 * d \<and> 400 * d \<le> 146097 * q + 146096"
    using div_bounds(4) [of "d * 400"] by (simp add: q_def)
  have y: "YearFromTime t
           = (if d < DayFromYear (1970 + q) then 1970 + q - 1
              else if DayFromYear (1970 + q + 1) \<le> d then 1970 + q + 1 else 1970 + q)"
    by (simp add: YearFromTime_def Let_def d_def q_def)
  have lower: "DayFromYear (1970 + q - 1) \<le> d"
    using DayFromYear_bounds [of "1970 + q - 1"] q by simp
  have upper: "d < DayFromYear (1970 + q + 2)"
    using DayFromYear_bounds [of "1970 + q + 2"] q by simp
  have two: "1970 + q + 1 + 1 = 1970 + q + 2"
    by simp
  show ?thesis
    unfolding d_def [symmetric] y using lower upper by (auto simp: two)
qed

lemma DayFromYear_Suc: "DayFromYear y < DayFromYear (y + 1)"
  using DayFromYear_bounds [of y] DayFromYear_bounds [of "y + 1"] by simp

lemma DayFromYear_mono:
  assumes "y \<le> z"
  shows "DayFromYear y \<le> DayFromYear z"
proof -
  have "DayFromYear y \<le> DayFromYear (y + int n)" for n
  proof (induction n)
    case 0
    then show ?case by simp
  next
    case (Suc n)
    have "DayFromYear (y + int n) < DayFromYear (y + int n + 1)"
      by (rule DayFromYear_Suc)
    moreover have "y + int (Suc n) = y + int n + 1"
      by simp
    ultimately show ?case
      using Suc by (simp only: order_trans [OF _ less_imp_le])
  qed
  from this [of "nat (z - y)"] assms show ?thesis
    by simp
qed

lemma YearFromTime_largest:
  assumes "DayFromYear z \<le> Day t"
  shows "z \<le> YearFromTime t"
proof (rule ccontr)
  assume "\<not> z \<le> YearFromTime t"
  then have "YearFromTime t + 1 \<le> z"
    by simp
  then have "DayFromYear (YearFromTime t + 1) \<le> DayFromYear z"
    by (rule DayFromYear_mono)
  with assms YearFromTime_contains_day [of t] show False
    by simp
qed

section \<open>Evaluating the date model\<close>

text \<open>
  The facts by which the simplifier evaluates the date model on concrete strings and
  time values. \<open>Let\<close> is unfolded in the parser, where it binds strings; in the calendar
  it binds numbers and is evaluated once they are numerals.
\<close>

lemmas parse_defs = Date_new_def parseDateTimeString_def parseDatePart_def parseTimePart_def
  parseOffset_def number_def isDigit_def digitValue_def MakeDay_def MakeDate_def MakeTime_def
  DayFromYear_def DaysInYear_def DaysInMonth_def daysBeforeMonth_def TimeClip_def UTC_def
  msPerDay_def Let_def

lemmas calendar_defs = MonthFromTime_def YearFromTime_def InLeapYear_def DayWithinYear_def
  Day_def DayFromYear_def DaysInYear_def LocalTime_def msPerDay_def

lemma getMonth_Some: "getMonth rt (Some t) = Some (MonthFromTime (LocalTime rt t))"
  by (simp add: getMonth_def)

lemma getFullYear_Some: "getFullYear rt (Some t) = Some (YearFromTime (LocalTime rt t))"
  by (simp add: getFullYear_def)

lemma getMonth_None: "getMonth rt None = None"
  by (simp add: getMonth_def)

lemma getFullYear_None: "getFullYear rt None = None"
  by (simp add: getFullYear_def)

lemma parse_samples_Z:
  "Date_new rtBRT ''2024-06-10T14:30:00Z'' = Some 1718029800000"
  "Date_new rtBRT ''2024-06-01T02:00:00Z'' = Some 1717207200000"
  "Date_new rtBRT ''2024-06-01T03:00:00Z'' = Some 1717210800000"
  "Date_new rtBRT ''2023-06-10T14:30:00Z'' = Some 1686407400000"
  "Date_new rtBRT ''not a date'' = None"
  by (simp_all add: parse_defs rtBRT_def)

lemma parse_samples_offset:
  "Date_new rtBRT ''2023-12-31T23:59:59-03:00'' = Some 1704077999000"
  "Date_new rtBRT ''2024-01-01T00:00:00-03:00'' = Some 1704078000000"
  "Date_new rtBRT ''2023-12-01T00:00:00-03:00'' = Some 1701399600000"
  "Date_new rtBRT ''2023-11-30T23:59:59-03:00'' = Some 1701399599000"
  "Date_new rtBRT ''2022-12-15T12:00:00-03:00'' = Some 1671116400000"
  by (simp_all add: parse_defs rtBRT_def)

lemma month_samples:
  "MonthFromTime (LocalTime rtBRT 1718029800000) = 5"
  "MonthFromTime (LocalTime rtBRT 1717207200000) = 4"
  "MonthFromTime (LocalTime rtBRT 1717210800000) = 5"
  "MonthFromTime (LocalTime rtBRT 1686407400000) = 5"
  "MonthFromTime (LocalTime rtBRT 1705320000000) = 0"
  "MonthFromTime (LocalTime rtBRT 1704077999000) = 11"
  "MonthFromTime (LocalTime rtBRT 1704078000000) = 0"
  "MonthFromTime (LocalTime rtBRT 1701399600000) = 11"
  "MonthFromTime (LocalTime rtBRT 1701399599000) = 10"
  "MonthFromTime (LocalTime rtBRT 1671116400000) = 11"
  by (simp_all add: calendar_defs rtBRT_def)

lemma year_samples:
  "YearFromTime (LocalTime rtBRT 1718029800000) = 2024"
  "YearFromTime (LocalTime rtBRT 1717207200000) = 2024"
  "YearFromTime (LocalTime rtBRT 1717210800000) = 2024"
  "YearFromTime (LocalTime rtBRT 1686407400000) = 2023"
  "YearFromTime (LocalTime rtBRT 1705320000000) = 2024"
  "YearFromTime (LocalTime rtBRT 1704077999000) = 2023"
  "YearFromTime (LocalTime rtBRT 1704078000000) = 2024"
  "YearFromTime (LocalTime rtBRT 1701399600000) = 2023"
  "YearFromTime (LocalTime rtBRT 1701399599000) = 2023"
  "YearFromTime (LocalTime rtBRT 1671116400000) = 2022"
  by (simp_all add: calendar_defs rtBRT_def)


section \<open>Properties of the period filter\<close>

lemma MonthFromTime_range: "0 \<le> MonthFromTime t \<and> MonthFromTime t \<le> 11"
  by (simp add: MonthFromTime_def Let_def)

lemma month_index_pred:
  fixes m y cm cy :: int
  assumes "0 \<le> m" "m \<le> 11" "0 \<le> cm" "cm \<le> 11"
  shows "(m = (if cm = 0 then 11 else cm - 1) \<and> y = (if cm = 0 then cy - 1 else cy))
           = (12 * y + m = 12 * cy + cm - 1)"
proof
  assume "m = (if cm = 0 then 11 else cm - 1) \<and> y = (if cm = 0 then cy - 1 else cy)"
  then show "12 * y + m = 12 * cy + cm - 1"
    by (cases "cm = 0") simp_all
next
  assume eq: "12 * y + m = 12 * cy + cm - 1"
  then have "12 * (cy - y) = m - cm + 1" by simp
  with assms have "- 12 < 12 * (cy - y)" "12 * (cy - y) \<le> 12" by simp_all
  then have "cy - y = 0 \<or> cy - y = 1" by presburger
  then show "m = (if cm = 0 then 11 else cm - 1) \<and> y = (if cm = 0 then cy - 1 else cy)"
  proof
    assume "cy - y = 0"
    with eq assms show ?thesis by (cases "cm = 0") simp_all
  next
    assume "cy - y = 1"
    then have "y = cy - 1" by simp
    with eq assms show ?thesis by (cases "cm = 0") simp_all
  qed
qed

text \<open>
  Claim C1. For every collection and every wall-clock time, the period filter for
  \<^verbatim>\<open>current-month\<close> returns the records, in their order, whose timestamp has the
  current (local) month and year: every record returned has them, and no record of the
  input that is not returned has them.
\<close>

theorem current_month_filter:
  "filteredRecords_Dashboard rt now recs ''current-month''
     = filter (\<lambda>r. getMonth rt (Date_new rt (data_hora r)) = getMonth rt (Some now)
                  \<and> getFullYear rt (Date_new rt (data_hora r)) = getFullYear rt (Some now))
         recs
   \<and> (\<forall>r \<in> set (filteredRecords_Dashboard rt now recs ''current-month'').
         getMonth rt (Date_new rt (data_hora r)) = getMonth rt (Some now)
         \<and> getFullYear rt (Date_new rt (data_hora r)) = getFullYear rt (Some now))
   \<and> (\<forall>r \<in> set recs - set (filteredRecords_Dashboard rt now recs ''current-month'').
         \<not> (getMonth rt (Date_new rt (data_hora r)) = getMonth rt (Some now)
            \<and> getFullYear rt (Date_new rt (data_hora r)) = getFullYear rt (Some now)))"
proof -
  have eq: "filteredRecords_Dashboard rt now recs ''current-month''
     = filter (\<lambda>r. getMonth rt (Date_new rt (data_hora r)) = getMonth rt (Some now)
                  \<and> getFullYear rt (Date_new rt (data_hora r)) = getFullYear rt (Some now))
         recs"
    by (simp add: filteredRecords_Dashboard_def Let_def getMonth_Some getFullYear_Some)
  show ?thesis
    unfolding eq by auto
qed

theorem current_month_filter_witness:
  "map id_num (filteredRecords_Dashboard rtBRT 1718029800000
      [mkRecord 1 ''2024-06-10T14:30:00Z'' ''a'' ''c'' Gasto 1 None,
       mkRecord 2 ''2024-06-01T02:00:00Z'' ''a'' ''c'' Gasto 1 None,
       mkRecord 3 ''2024-06-01T03:00:00Z'' ''a'' ''c'' Gasto 1 None,
       mkRecord 4 ''2023-06-10T14:30:00Z'' ''a'' ''c'' Gasto 1 None,
       mkRecord 5 ''not a date'' ''a'' ''c'' Gasto 1 None]
      ''current-month'') = [1, 3]"
  using current_month_filter [of rtBRT 1718029800000
      "[mkRecord 1 ''2024-06-10T14:30:00Z'' ''a'' ''c'' Gasto 1 None,
       mkRecord 2 ''2024-06-01T02:00:00Z'' ''a'' ''c'' Gasto 1 None,
       mkRecord 3 ''2024-06-01T03:00:00Z'' ''a'' ''c'' Gasto 1 None,
       mkRecord 4 ''2023-06-10T14:30:00Z'' ''a'' ''c'' Gasto 1 None,
       mkRecord 5 ''not a date'' ''a'' ''c'' Gasto 1 None]"]
  by (simp add: mkRecord_def parse_samples_Z getMonth_Some getFullYear_Some
        getMonth_None getFullYear_None month_samples year_samples)

text \<open>
  Claim C3. For every collection, the period filter for \<^verbatim>\<open>last-month\<close> keeps exactly
  the records whose timestamp lies in the calendar month just before the current one:
  counting months as \<open>12 * year + month\<close>, the record's month is the current month minus
  one. When the current month is January, these are the records of December of the
  previous year; with now in January 2024 they are the records of month 11 (December,
  months counted from 0) of 2023.
\<close>

theorem last_month_filter:
  "filteredRecords_Dashboard rt now recs ''last-month''
     = filter (\<lambda>r. case Date_new rt (data_hora r) of
                     None \<Rightarrow> False
                   | Some t \<Rightarrow>
                       12 * YearFromTime (LocalTime rt t) + MonthFromTime (LocalTime rt t)
                       = 12 * YearFromTime (LocalTime rt now)
                           + MonthFromTime (LocalTime rt now) - 1)
         recs
   \<and> (MonthFromTime (LocalTime rt now) = 0 \<longrightarrow>
        filteredRecords_Dashboard rt now recs ''last-month''
          = filter (\<lambda>r. getMonth rt (Date_new rt (data_hora r)) = Some 11
                       \<and> getFullYear rt (Date_new rt (data_hora r))
                           = Some (YearFromTime (LocalTime rt now) - 1))
              recs)
   \<and> (MonthFromTime (LocalTime rt now) = 0 \<and> YearFromTime (LocalTime rt now) = 2024 \<longrightarrow>
        filteredRecords_Dashboard rt now recs ''last-month''
          = filter (\<lambda>r. getMonth rt (Date_new rt (data_hora r)) = Some 11
                       \<and> getFullYear rt (Date_new rt (data_hora r)) = Some 2023)
              recs)"
proof -
  have pred: "(getMonth rt d = Some (if MonthFromTime (LocalTime rt now) = 0 then 11
                                     else MonthFromTime (LocalTime rt now) - 1)
               \<and> getFullYear rt d = Some (if MonthFromTime (LocalTime rt now) = 0
                                         then YearFromTime (LocalTime rt now) - 1
                                         else YearFromTime (LocalTime rt now)))
              = (case d of
                   None \<Rightarrow> False
                 | Some t \<Rightarrow>
                     12 * YearFromTime (LocalTime rt t) + MonthFromTime (LocalTime rt t)
                     = 12 * YearFromTime (LocalTime rt now)
                         + MonthFromTime (LocalTime rt now) - 1)" for d
  proof (cases d)
    case None
    then show ?thesis by (simp add: getMonth_None)
  next
    case (Some t)
    show ?thesis
      using month_index_pred [of "MonthFromTime (LocalTime rt t)"
              "MonthFromTime (LocalTime rt now)" "YearFromTime (LocalTime rt t)"
              "YearFromTime (LocalTime rt now)"]
            MonthFromTime_range [of "LocalTime rt t"] MonthFromTime_range [of "LocalTime rt now"]
      unfolding Some getMonth_Some getFullYear_Some option.simps option.inject
      by blast
  qed
  have first: "filteredRecords_Dashboard rt now recs ''last-month''
     = filter (\<lambda>r. case Date_new rt (data_hora r) of
                     None \<Rightarrow> False
                   | Some t \<Rightarrow>
                       12 * YearFromTime (LocalTime rt t) + MonthFromTime (LocalTime rt t)
                       = 12 * YearFromTime (LocalTime rt now)
                           + MonthFromTime (LocalTime rt now) - 1)
         recs"
    unfolding filteredRecords_Dashboard_def Let_def
    by (rule filter_cong [OF refl]) (simp only: pred list.inject char.inject, simp)
  have second: "filteredRecords_Dashboard rt now recs ''last-month''
          = filter (\<lambda>r. getMonth rt (Date_new rt (data_hora r)) = Some 11
                       \<and> getFullYear rt (Date_new rt (data_hora r))
                           = Some (YearFromTime (LocalTime rt now) - 1))
              recs"
    if "MonthFromTime (LocalTime rt now) = 0"
    using that by (simp add: filteredRecords_Dashboard_def Let_def)
  from first second show ?thesis by simp
qed

theorem last_month_filter_witness:
  "MonthFromTime (LocalTime rtBRT 1705320000000) = 0
   \<and> YearFromTime (LocalTime rtBRT 1705320000000) = 2024
   \<and> map id_num (filteredRecords_Dashboard rtBRT 1705320000000
      [mkRecord 1 ''2023-12-31T23:59:59-03:00'' ''a'' ''c'' Gasto 1 None,
       mkRecord 2 ''2024-01-01T00:00:00-03:00'' ''a'' ''c'' Gasto 1 None,
       mkRecord 3 ''2023-12-01T00:00:00-03:00'' ''a'' ''c'' Gasto 1 None,
       mkRecord 4 ''2023-11-30T23:59:59-03:00'' ''a'' ''c'' Gasto 1 None,
       mkRecord 5 ''2022-12-15T12:00:00-03:00'' ''a'' ''c'' Gasto 1 None]
      ''last-month'') = [1, 3]"
  using last_month_filter [of rtBRT 1705320000000
      "[mkRecord 1 ''2023-12-31T23:59:59-03:00'' ''a'' ''c'' Gasto 1 None,
       mkRecord 2 ''2024-01-01T00:00:00-03:00'' ''a'' ''c'' Gasto 1 None,
       mkRecord 3 ''2023-12-01T00:00:00-03:00'' ''a'' ''c'' Gasto 1 None,
       mkRecord 4 ''2023-11-30T23:59:59-03:00'' ''a'' ''c'' Gasto 1 None,
       mkRecord 5 ''2022-12-15T12:00:00-03:00'' ''a'' ''c'' Gasto 1 None]"]
  by (simp add: mkRecord_def parse_samples_offset getMonth_Some getFullYear_Some
        month_samples year_samples)

section \<open>Properties of the search and attribute filter\<close>

lemma str_includes_sublist: "str_includes s q = sublist q s"
  by (induction s) (simp_all add: sublist_Cons_right)

lemma ci_substring_some_substring:
  "ci_substring q s = (\<exists>u. sublist u s \<and> toLowerCase u = toLowerCase q)"
proof
  assume "ci_substring q s"
  then have "sublist (toLowerCase q) (map toLowerChar s)"
    by (simp add: ci_substring_def toLowerCase_def)
  then obtain u where "sublist u s" "toLowerCase q = map toLowerChar u"
    using sublist_map_rightE by blast
  then show "\<exists>u. sublist u s \<and> toLowerCase u = toLowerCase q"
    by (auto simp: toLowerCase_def)
next
  assume "\<exists>u. sublist u s \<and> toLowerCase u = toLowerCase q"
  then obtain u where u: "sublist u s" "toLowerCase u = toLowerCase q"
    by blast
  from u(1) obtain ps ss where "s = ps @ u @ ss"
    by (auto simp: sublist_def)
  then have "toLowerCase s = toLowerCase ps @ toLowerCase q @ toLowerCase ss"
    using u(2) by (simp add: toLowerCase_def)
  then show "ci_substring q s"
    unfolding ci_substring_def sublist_def by blast
qed

lemma matchesSearch_spec:
  "matchesSearch st r =
     (st = ''''
      \<or> (case descricao r of None \<Rightarrow> False | Some d \<Rightarrow> ci_substring st d)
      \<or> ci_substring st (responsavel r)
      \<or> ci_substring st (categoria r))"
  by (cases "descricao r")
     (simp_all add: matchesSearch_def truthy_def str_includes_sublist ci_substring_def)

lemma mset_insertBy: "mset (insertBy comparefn x ys) = add_mset x (mset ys)"
  by (induction ys) simp_all

lemma mset_Array_sort: "mset (Array_sort comparefn xs) = mset xs"
  by (induction xs) (simp_all add: Array_sort_def mset_insertBy)

lemma set_Array_sort: "set (Array_sort comparefn xs) = set xs"
  using mset_Array_sort [of comparefn xs] by (metis set_mset_mset)

text \<open>
  When the comparator orders by a key, the sort is the stable insertion sort by that
  key of the library.
\<close>

lemma insertBy_insort_key:
  fixes k :: "'a \<Rightarrow> 'k::linorder"
  assumes "\<forall>y \<in> set ys. (sortCompare comparefn x y > 0) = (k y < k x)"
  shows "insertBy comparefn x ys = insort_key k x ys"
  using assms by (induction ys) (auto simp: not_less)

lemma Array_sort_sort_key:
  fixes k :: "'a \<Rightarrow> 'k::linorder"
  assumes "\<forall>x \<in> set xs. \<forall>y \<in> set xs. (sortCompare comparefn x y > 0) = (k y < k x)"
  shows "Array_sort comparefn xs = sort_key k xs"
  using assms
proof (induction xs)
  case Nil
  then show ?case by (simp add: Array_sort_def)
next
  case (Cons x xs)
  then have IH: "Array_sort comparefn xs = sort_key k xs"
    by simp
  have "\<forall>y \<in> set (sort_key k xs). (sortCompare comparefn x y > 0) = (k y < k x)"
    using Cons.prems by simp
  then have "insertBy comparefn x (sort_key k xs) = insort_key k x (sort_key k xs)"
    by (rule insertBy_insort_key)
  with IH show ?case
    by (simp add: Array_sort_def)
qed


lemma parse_sampleRecords:
  "Date_new rtBRT ''2024-06-09T09:00:00Z'' = Some 1717923600000"
  "Date_new rtBRT ''2024-06-08T16:45:00Z'' = Some 1717865100000"
  "Date_new rtBRT ''2024-06-07T19:30:00Z'' = Some 1717788600000"
  "Date_new rtBRT ''2024-06-06T10:15:00Z'' = Some 1717668900000"
  by (simp_all add: parse_defs rtBRT_def)

lemmas filter_defs = filteredRecords_RecordsList_def recordMatches_def matchesSearch_def
  matchesType_def matchesResponsible_def matchesCategory_def matchesDateFrom_def
  matchesDateTo_def truthy_def toLowerCase_def toLowerChar_def Array_sort_def
  sortCompare_def compareDataHora_def date_ge_def date_le_def char_of_def bit_iff_odd_drop_bit

text \<open>
  Claim C6, as the code has it. For every collection in which the timestamp of every
  record parses to a date and time, and every choice of criteria, the output of the
  search and attribute filter is sorted by timestamp, most recent first, and the sort
  is stable: the records of any one timestamp come in the output in the order they
  have in the input. The output is the sorted list of the kept records, the sort being
  the last step.
\<close>

theorem search_filter_sorted_stable:
  assumes valid: "\<forall>r \<in> set recs. hasTimestamp rt r"
  shows "sorted_wrt (\<lambda>a b. date_ge (Date_new rt (data_hora a)) (Date_new rt (data_hora b)))
           (filteredRecords_RecordsList rt recs f)
         \<and> (\<forall>t. filter (\<lambda>r. Date_new rt (data_hora r) = Some t)
                   (filteredRecords_RecordsList rt recs f)
                 = filter (\<lambda>r. Date_new rt (data_hora r) = Some t)
                     (filter (recordMatches rt f) recs))
         \<and> mset (filteredRecords_RecordsList rt recs f)
             = mset (filter (recordMatches rt f) recs)"
proof -
  define xs where "xs = filter (recordMatches rt f) recs"
  define k where "k = (\<lambda>r::FinanceRecord. case Date_new rt (data_hora r) of None \<Rightarrow> 0 | Some t \<Rightarrow> - t)"
  have v: "\<exists>t. Date_new rt (data_hora r) = Some t" if "r \<in> set xs" for r
    using that valid by (auto simp: xs_def hasTimestamp_def)
  have cmp: "(sortCompare (compareDataHora rt) x y > 0) = (k y < k x)"
    if "x \<in> set xs" "y \<in> set xs" for x y
    using v [OF that(1)] v [OF that(2)]
    by (auto simp: sortCompare_def compareDataHora_def k_def)
  have out: "filteredRecords_RecordsList rt recs f = sort_key k xs"
    unfolding filteredRecords_RecordsList_def xs_def [symmetric]
    by (rule Array_sort_sort_key) (simp add: cmp)
  have ge: "date_ge (Date_new rt (data_hora a)) (Date_new rt (data_hora b))"
    if "a \<in> set xs" "b \<in> set xs" "k a \<le> k b" for a b
    using v [OF that(1)] v [OF that(2)] that(3)
    by (auto simp: date_ge_def k_def)
  have "sorted (map k (sort_key k xs))"
    by simp
  then have "sorted_wrt (\<lambda>a b. k a \<le> k b) (sort_key k xs)"
    by (simp only: sorted_map)
  then have sorted: "sorted_wrt (\<lambda>a b. date_ge (Date_new rt (data_hora a))
                        (Date_new rt (data_hora b))) (sort_key k xs)"
    by (rule sorted_wrt_mono_rel [rotated]) (simp add: ge)
  have key: "(Date_new rt (data_hora r) = Some t) = (k r = - t)" if "r \<in> set xs" for r t
    using v [OF that] by (auto simp: k_def)
  have stable: "filter (\<lambda>r. Date_new rt (data_hora r) = Some t) (sort_key k xs)
                = filter (\<lambda>r. Date_new rt (data_hora r) = Some t) xs" for t
  proof -
    have "filter (\<lambda>r. Date_new rt (data_hora r) = Some t) (sort_key k xs)
          = filter (\<lambda>r. k r = - t) (sort_key k xs)"
      by (rule filter_cong [OF refl]) (simp add: key)
    also have "\<dots> = filter (\<lambda>r. k r = - t) xs"
      by (rule sort_key_stable)
    also have "\<dots> = filter (\<lambda>r. Date_new rt (data_hora r) = Some t) xs"
      by (rule filter_cong [OF refl]) (simp add: key)
    finally show ?thesis .
  qed
  have "mset (sort_key k xs) = mset xs"
    by simp
  with sorted stable show ?thesis
    unfolding out xs_def [symmetric] by blast
qed

theorem search_filter_sorted_stable_witness:
  "map id_num (filteredRecords_RecordsList rtBRT
      [mkRecord 4 ''2024-06-08T16:45:00Z'' ''a'' ''c'' Gasto 1 None,
       mkRecord 1 ''2024-06-10T14:30:00Z'' ''a'' ''c'' Gasto 1 None,
       mkRecord 2 ''2024-06-09T09:00:00Z'' ''a'' ''c'' Gasto 1 None,
       mkRecord 3 ''2024-06-10T14:30:00Z'' ''a'' ''c'' Gasto 1 None,
       mkRecord 5 ''2024-06-09T09:00:00Z'' ''a'' ''c'' Gasto 1 None]
      clearFilters) = [1, 3, 2, 5, 4]
   \<and> sorted_wrt (\<lambda>a b. date_ge (Date_new rtBRT (data_hora a)) (Date_new rtBRT (data_hora b)))
       (filteredRecords_RecordsList rtBRT
          [mkRecord 4 ''2024-06-08T16:45:00Z'' ''a'' ''c'' Gasto 1 None,
           mkRecord 1 ''2024-06-10T14:30:00Z'' ''a'' ''c'' Gasto 1 None,
           mkRecord 2 ''2024-06-09T09:00:00Z'' ''a'' ''c'' Gasto 1 None,
           mkRecord 3 ''2024-06-10T14:30:00Z'' ''a'' ''c'' Gasto 1 None,
           mkRecord 5 ''2024-06-09T09:00:00Z'' ''a'' ''c'' Gasto 1 None]
          clearFilters)"
  using search_filter_sorted_stable [of
      "[mkRecord 4 ''2024-06-08T16:45:00Z'' ''a'' ''c'' Gasto 1 None,
        mkRecord 1 ''2024-06-10T14:30:00Z'' ''a'' ''c'' Gasto 1 None,
        mkRecord 2 ''2024-06-09T09:00:00Z'' ''a'' ''c'' Gasto 1 None,
        mkRecord 3 ''2024-06-10T14:30:00Z'' ''a'' ''c'' Gasto 1 None,
        mkRecord 5 ''2024-06-09T09:00:00Z'' ''a'' ''c'' Gasto 1 None]" rtBRT clearFilters]
  by (simp add: filter_defs hasTimestamp_def clearFilters_def mkRecord_def parse_samples_Z
        parse_sampleRecords)

text \<open>
  Claim C6 as stated, for every collection, fails on a collection with a timestamp
  that does not parse. The comparator then yields NaN, which counts as 0, for every
  pair with that record: in JavaScript the order is implementation-defined, and an
  insertion sort leaves these three records as they are, the record of 8 June before
  the record of 10 June.
\<close>

theorem search_filter_unsorted_counterexample:
  "map id_num (filteredRecords_RecordsList rtBRT
      [mkRecord 1 ''2024-06-08T16:45:00Z'' ''a'' ''c'' Gasto 1 None,
       mkRecord 2 ''not a date'' ''a'' ''c'' Gasto 1 None,
       mkRecord 3 ''2024-06-10T14:30:00Z'' ''a'' ''c'' Gasto 1 None]
      clearFilters) = [1, 2, 3]
   \<and> Date_new rtBRT ''2024-06-08T16:45:00Z'' = Some 1717865100000
   \<and> Date_new rtBRT ''not a date'' = None
   \<and> Date_new rtBRT ''2024-06-10T14:30:00Z'' = Some 1718029800000
   \<and> \<not> sorted_wrt (\<lambda>a b. date_ge (Date_new rtBRT (data_hora a)) (Date_new rtBRT (data_hora b)))
         (filter (hasTimestamp rtBRT)
           (filteredRecords_RecordsList rtBRT
              [mkRecord 1 ''2024-06-08T16:45:00Z'' ''a'' ''c'' Gasto 1 None,
               mkRecord 2 ''not a date'' ''a'' ''c'' Gasto 1 None,
               mkRecord 3 ''2024-06-10T14:30:00Z'' ''a'' ''c'' Gasto 1 None]
              clearFilters))"
proof -
  have out: "filteredRecords_RecordsList rtBRT
      [mkRecord 1 ''2024-06-08T16:45:00Z'' ''a'' ''c'' Gasto 1 None,
       mkRecord 2 ''not a date'' ''a'' ''c'' Gasto 1 None,
       mkRecord 3 ''2024-06-10T14:30:00Z'' ''a'' ''c'' Gasto 1 None]
      clearFilters
    = [mkRecord 1 ''2024-06-08T16:45:00Z'' ''a'' ''c'' Gasto 1 None,
       mkRecord 2 ''not a date'' ''a'' ''c'' Gasto 1 None,
       mkRecord 3 ''2024-06-10T14:30:00Z'' ''a'' ''c'' Gasto 1 None]"
    by (simp add: filter_defs clearFilters_def mkRecord_def parse_samples_Z parse_sampleRecords)
  show ?thesis
    unfolding out
    by (simp add: mkRecord_def hasTimestamp_def date_ge_def parse_samples_Z parse_sampleRecords)
qed

text \<open>
  Claim C10. The filter is defined on records without a description: the optional
  chaining makes the description's disjunct false, so such a record matches a
  non-empty query exactly when the query is, ignoring case, a substring of its
  responsible party or of its category, and it is kept exactly when it moreover meets
  the five other criteria.
\<close>

theorem absent_description_search:
  assumes "descricao r = None" and "searchTerm f \<noteq> ''''"
  shows "matchesSearch (searchTerm f) r
           = (ci_substring (searchTerm f) (responsavel r)
              \<or> ci_substring (searchTerm f) (categoria r))
         \<and> (r \<in> set (filteredRecords_RecordsList rt recs f))
           = (r \<in> set recs
              \<and> (ci_substring (searchTerm f) (responsavel r)
                 \<or> ci_substring (searchTerm f) (categoria r))
              \<and> matchesType (filterType f) r
              \<and> matchesResponsible (filterResponsible f) r
              \<and> matchesCategory (filterCategory f) r
              \<and> matchesDateFrom rt (dateFrom f) r \<and> matchesDateTo rt (dateTo f) r)"
proof -
  have m: "matchesSearch (searchTerm f) r
           = (ci_substring (searchTerm f) (responsavel r)
              \<or> ci_substring (searchTerm f) (categoria r))"
    using assms by (simp add: matchesSearch_spec)
  show ?thesis
    by (auto simp add: m filteredRecords_RecordsList_def set_Array_sort recordMatches_def)
qed

theorem absent_description_search_witness:
  "map id_num (filteredRecords_RecordsList rtBRT
      [mkRecord 1 ''2024-06-10T14:30:00Z'' ''Maria'' ''Lazer'' Gasto 1 None,
       mkRecord 2 ''2024-06-09T09:00:00Z'' ''Pedro'' ''Mercado'' Gasto 1 None,
       mkRecord 3 ''2024-06-08T16:45:00Z'' ''Pedro'' ''Lazer'' Gasto 1 None]
      (clearFilters\<lparr>searchTerm := ''MAR''\<rparr>)) = [1]
   \<and> matchesSearch ''MAR''
        (mkRecord 1 ''2024-06-10T14:30:00Z'' ''Maria'' ''Lazer'' Gasto 1 None)
   \<and> ci_substring ''MAR'' ''Maria''"
proof -
  have a: "map id_num (filteredRecords_RecordsList rtBRT
      [mkRecord 1 ''2024-06-10T14:30:00Z'' ''Maria'' ''Lazer'' Gasto 1 None,
       mkRecord 2 ''2024-06-09T09:00:00Z'' ''Pedro'' ''Mercado'' Gasto 1 None,
       mkRecord 3 ''2024-06-08T16:45:00Z'' ''Pedro'' ''Lazer'' Gasto 1 None]
      (clearFilters\<lparr>searchTerm := ''MAR''\<rparr>)) = [1]"
    by (simp add: filter_defs clearFilters_def mkRecord_def parse_samples_Z
          parse_sampleRecords)
  have b: "matchesSearch ''MAR''
        (mkRecord 1 ''2024-06-10T14:30:00Z'' ''Maria'' ''Lazer'' Gasto 1 None)"
    by (simp add: filter_defs mkRecord_def)
  have "\<not> ci_substring ''MAR'' ''Lazer''"
    by (simp add: ci_substring_def filter_defs str_includes_sublist [symmetric])
  with b absent_description_search [of
      "mkRecord 1 ''2024-06-10T14:30:00Z'' ''Maria'' ''Lazer'' Gasto 1 None"
      "clearFilters\<lparr>searchTerm := ''MAR''\<rparr>" rtBRT "[]"]
  have "ci_substring ''MAR'' ''Maria''"
    by (simp add: mkRecord_def clearFilters_def)
  with a b show ?thesis by simp
qed

section \<open>The date range of the search and attribute filter\<close>

text \<open>
  What the two date criteria compare with. The start date is read by
  \<^verbatim>\<open>new Date(dateFrom)\<close>, a date-only form: midnight in UTC of that day, whatever the
  local zone. The end date is read by \<^verbatim>\<open>new Date(dateTo + 'T23:59:59')\<close>, a date-time
  form without offset: 23:59:59 of that day in local time.
\<close>

lemma parseDatePart_length: "parseDatePart s = Some day \<Longrightarrow> length s = 10"
  by (simp add: parseDatePart_def split: if_splits)

lemma Date_new_date_only:
  assumes "parseDatePart df = Some day"
  shows "Date_new rt df = TimeClip (day * msPerDay)"
  using assms parseDatePart_length [OF assms]
  by (simp add: Date_new_def parseDateTimeString_def MakeDate_def)

lemma parseTimePart_end_of_day: "parseTimePart ''23:59:59'' = Some 86399000"
  by (simp add: parseTimePart_def number_def isDigit_def digitValue_def MakeTime_def)

lemma Date_new_end_of_day:
  assumes "parseDatePart dt = Some day"
  shows "Date_new rt (dt @ ''T23:59:59'') = TimeClip (UTC rt (day * msPerDay + 86399000))"
proof -
  have len: "length dt = 10"
    by (rule parseDatePart_length [OF assms])
  have tk: "take 10 (dt @ ''T23:59:59'') = dt" "(dt @ ''T23:59:59'') ! 10 = CHR ''T''"
    "drop 11 (dt @ ''T23:59:59'') = ''23:59:59''"
    using len by (simp_all add: nth_append)
  have tw: "takeWhile (\<lambda>c. isDigit c \<or> c = CHR '':'' \<or> c = CHR ''.'') ''23:59:59'' = ''23:59:59''"
    "dropWhile (\<lambda>c. isDigit c \<or> c = CHR '':'' \<or> c = CHR ''.'') ''23:59:59'' = []"
    by (simp_all add: isDigit_def)
  show ?thesis
    unfolding Date_new_def parseDateTimeString_def Let_def tk tw assms parseTimePart_end_of_day
    using len by (simp add: MakeDate_def)
qed

text \<open>
  The local start of the day would be \<^verbatim>\<open>new Date(dateFrom + 'T00:00:00')\<close>; it is the
  bound of the code only where local time is UTC.
\<close>

lemma Date_new_start_of_day:
  assumes "parseDatePart df = Some day"
  shows "Date_new rt (df @ ''T00:00:00'') = TimeClip (UTC rt (day * msPerDay))"
proof -
  have len: "length df = 10"
    by (rule parseDatePart_length [OF assms])
  have tk: "take 10 (df @ ''T00:00:00'') = df" "(df @ ''T00:00:00'') ! 10 = CHR ''T''"
    "drop 11 (df @ ''T00:00:00'') = ''00:00:00''"
    using len by (simp_all add: nth_append)
  have tw: "takeWhile (\<lambda>c. isDigit c \<or> c = CHR '':'' \<or> c = CHR ''.'') ''00:00:00'' = ''00:00:00''"
    "dropWhile (\<lambda>c. isDigit c \<or> c = CHR '':'' \<or> c = CHR ''.'') ''00:00:00'' = []"
    by (simp_all add: isDigit_def)
  have tm: "parseTimePart ''00:00:00'' = Some 0"
    by (simp add: parseTimePart_def number_def isDigit_def digitValue_def MakeTime_def)
  show ?thesis
    unfolding Date_new_def parseDateTimeString_def Let_def tk tw assms tm
    using len by (simp add: MakeDate_def)
qed

lemma date_range_bounds:
  assumes "parseDatePart df = Some dayFrom" and "parseDatePart dt = Some dayTo"
    and "Date_new rt (data_hora r) = Some t"
  shows "matchesDateFrom rt df r = date_ge (Some t) (TimeClip (dayFrom * msPerDay))"
    and "matchesDateTo rt dt r
           = date_le (Some t) (TimeClip (UTC rt (dayTo * msPerDay + 86399000)))"
proof -
  have "df \<noteq> []" "dt \<noteq> []"
    using parseDatePart_length [OF assms(1)] parseDatePart_length [OF assms(2)] by auto
  then show "matchesDateFrom rt df r = date_ge (Some t) (TimeClip (dayFrom * msPerDay))"
    and "matchesDateTo rt dt r
           = date_le (Some t) (TimeClip (UTC rt (dayTo * msPerDay + 86399000)))"
    by (simp_all add: matchesDateFrom_def matchesDateTo_def assms(3)
          Date_new_date_only [OF assms(1)] Date_new_end_of_day [OF assms(2)])
qed

lemma local_samples:
  "Date_new rtBRT ''2024-06-10T01:00:00Z'' = Some 1717981200000"
  "Date_new rtBRT ''2024-06-10T00:00:00'' = Some 1717988400000"
  "Date_new rtBRT ''2024-06-10T23:59:59'' = Some 1718074799000"
  "Date_new rtBRT ''2024-06-10'' = Some 1717977600000"
  by (simp_all add: parse_defs rtBRT_def)

lemma local_date_sample:
  "YearFromTime (LocalTime rtBRT 1717981200000) = 2024"
  "MonthFromTime (LocalTime rtBRT 1717981200000) = 5"
  "DateFromTime (LocalTime rtBRT 1717981200000) = 9"
  by (simp_all add: calendar_defs DateFromTime_def daysBeforeMonth_def rtBRT_def)

text \<open>
  Claim C8, at a failing input. In the zone UTC-03:00 the start date 2024-06-10 is
  given and a record carries the timestamp 2024-06-10T01:00:00Z, which is 22:00 of
  9 June in local time, two hours before the local start of 10 June (03:00:00Z). The
  record is strictly earlier than the start of the chosen day, and the filter keeps it:
  the bound the code compares with is midnight in UTC.
\<close>

theorem date_from_keeps_previous_local_day:
  "map id_num (filteredRecords_RecordsList rtBRT
      [mkRecord 1 ''2024-06-10T01:00:00Z'' ''a'' ''c'' Gasto 1 None]
      (clearFilters\<lparr>dateFrom := ''2024-06-10''\<rparr>)) = [1]
   \<and> Date_new rtBRT ''2024-06-10T01:00:00Z'' = Some 1717981200000
   \<and> Date_new rtBRT ''2024-06-10T00:00:00'' = Some 1717988400000
   \<and> Date_new rtBRT ''2024-06-10'' = Some 1717977600000
   \<and> getFullYear rtBRT (Some 1717981200000) = Some 2024
   \<and> getMonth rtBRT (Some 1717981200000) = Some 5
   \<and> getDate rtBRT (Some 1717981200000) = Some 9"
  by (simp add: filter_defs clearFilters_def mkRecord_def local_samples local_date_sample
        getMonth_Some getFullYear_Some getDate_def)


section \<open>The six criteria together\<close>

text \<open>
  The end of the day of the specification is the bound that the code compares with.
  The start of the day is the bound of the code only where the local zone has no
  offset from UTC at that midnight.
\<close>

lemma endOfDay_code:
  assumes "parseDatePart dt = Some day"
  shows "endOfDay rt dt = Date_new rt (dt @ ''T23:59:59'')"
  by (simp add: endOfDay_def assms Date_new_end_of_day [OF assms] MakeDate_def MakeTime_def)

lemma startOfDay_local:
  assumes "parseDatePart df = Some day"
  shows "startOfDay rt df = Date_new rt (df @ ''T00:00:00'')"
  by (simp add: startOfDay_def assms Date_new_start_of_day [OF assms] MakeDate_def MakeTime_def)

lemma startOfDay_code:
  assumes "parseDatePart df = Some day" and "LocalTZA rt (MakeDate day 0) False = 0"
  shows "startOfDay rt df = Date_new rt df"
  using assms(2)
  by (simp add: startOfDay_def assms(1) Date_new_date_only [OF assms(1)] MakeDate_def
        MakeTime_def UTC_def)

text \<open>
  Hence the filter keeps exactly the records on which all six criteria hold whenever no
  start date is given, or the start date is a day at whose midnight local time is UTC,
  the end date being absent or a day of the calendar.
\<close>

lemma recordMatches_spec:
  assumes "dateFrom f = ''''
           \<or> (\<exists>day. parseDatePart (dateFrom f) = Some day
                  \<and> LocalTZA rt (MakeDate day 0) False = 0)"
    and "dateTo f = '''' \<or> (\<exists>day. parseDatePart (dateTo f) = Some day)"
  shows "recordMatches rt f r = allCriteriaHold rt f r"
proof -
  have "matchesDateFrom rt (dateFrom f) r
        = (dateFrom f = ''''
           \<or> date_ge (Date_new rt (data_hora r)) (startOfDay rt (dateFrom f)))"
  proof (cases "dateFrom f = ''''")
    case True
    then show ?thesis by (simp add: matchesDateFrom_def)
  next
    case False
    with assms(1) obtain day where "parseDatePart (dateFrom f) = Some day"
      "LocalTZA rt (MakeDate day 0) False = 0"
      by blast
    then have "startOfDay rt (dateFrom f) = Date_new rt (dateFrom f)"
      by (rule startOfDay_code)
    then show ?thesis by (simp add: matchesDateFrom_def)
  qed
  moreover have "matchesDateTo rt (dateTo f) r
        = (dateTo f = ''''
           \<or> date_le (Date_new rt (data_hora r)) (endOfDay rt (dateTo f)))"
  proof (cases "dateTo f = ''''")
    case True
    then show ?thesis by (simp add: matchesDateTo_def)
  next
    case False
    with assms(2) obtain day where "parseDatePart (dateTo f) = Some day"
      by blast
    then have "endOfDay rt (dateTo f) = Date_new rt (dateTo f @ ''T23:59:59'')"
      by (rule endOfDay_code)
    then show ?thesis by (simp add: matchesDateTo_def)
  qed
  ultimately show ?thesis
    by (simp only: recordMatches_def allCriteriaHold_def matchesSearch_spec matchesType_def
          matchesResponsible_def matchesCategory_def)
qed

lemma search_filter_without_start_offset:
  assumes "dateFrom f = ''''
           \<or> (\<exists>day. parseDatePart (dateFrom f) = Some day
                  \<and> LocalTZA rt (MakeDate day 0) False = 0)"
    and "dateTo f = '''' \<or> (\<exists>day. parseDatePart (dateTo f) = Some day)"
  shows "mset (filteredRecords_RecordsList rt recs f) = mset (filter (allCriteriaHold rt f) recs)"
    and "set (filteredRecords_RecordsList rt recs f) = {r \<in> set recs. allCriteriaHold rt f r}"
proof -
  have "recordMatches rt f = allCriteriaHold rt f"
    by (rule ext) (rule recordMatches_spec [OF assms])
  then have eq: "filter (recordMatches rt f) recs = filter (allCriteriaHold rt f) recs"
    by simp
  show "mset (filteredRecords_RecordsList rt recs f) = mset (filter (allCriteriaHold rt f) recs)"
    by (simp only: filteredRecords_RecordsList_def mset_Array_sort eq)
  show "set (filteredRecords_RecordsList rt recs f) = {r \<in> set recs. allCriteriaHold rt f r}"
    by (simp only: filteredRecords_RecordsList_def set_Array_sort eq set_filter)
qed

lemma criteria_samples:
  "Date_new rtBRT ''2024-06-10T02:30:00Z'' = Some 1717986600000"
  "Date_new rtBRT ''2024-06-10T23:00:00Z'' = Some 1718060400000"
  "Date_new rtBRT ''2024-06-10'' = Some 1717977600000"
  "Date_new rtBRT ''2024-06-10T23:59:59'' = Some 1718074799000"
  "startOfDay rtBRT ''2024-06-10'' = Some 1717988400000"
  "endOfDay rtBRT ''2024-06-10'' = Some 1718074799000"
  by (simp_all add: startOfDay_def endOfDay_def parse_defs rtBRT_def)

text \<open>
  Claim C5, at a failing input. In the zone UTC-03:00 the query is \<^verbatim>\<open>maria\<close>, the kind
  is \<^verbatim>\<open>gasto\<close>, and the start and the end date are both 2024-06-10. Three expense
  records of Maria: record 1 at 2024-06-10T02:30:00Z, which is 23:30 of 9 June in local
  time, half an hour before the day starts (03:00:00Z); record 2 at 14:30:00Z and
  record 3 at 23:00:00Z of 10 June, both within the day; and one income record 4 of
  Maria within the day. The text, kind, responsible-party and category criteria hold
  of records 1, 2 and 3, and all six criteria hold of records 2 and 3 only; the filter
  keeps record 1 as well, last in its output. This is the start bound of the code,
  midnight in UTC, that claim C8 fails on.
\<close>

theorem search_filter_keeps_record_outside_criteria:
  "map id_num (filteredRecords_RecordsList rtBRT
      [mkRecord 1 ''2024-06-10T02:30:00Z'' ''Maria'' ''Lazer'' Gasto 80 (Some ''Cinema''),
       mkRecord 2 ''2024-06-10T14:30:00Z'' ''Maria'' ''Lazer'' Gasto 30 None,
       mkRecord 3 ''2024-06-10T23:00:00Z'' ''Maria'' ''Mercado'' Gasto 25 (Some ''Feira''),
       mkRecord 4 ''2024-06-10T14:30:00Z'' ''Maria'' ''Extra'' Receita 450 None]
      (clearFilters\<lparr>searchTerm := ''maria'', filterType := ''gasto'',
         dateFrom := ''2024-06-10'', dateTo := ''2024-06-10''\<rparr>)) = [3, 2, 1]
   \<and> map id_num (filter
        (allCriteriaHold rtBRT
           (clearFilters\<lparr>searchTerm := ''maria'', filterType := ''gasto'',
              dateFrom := ''2024-06-10'', dateTo := ''2024-06-10''\<rparr>))
      [mkRecord 1 ''2024-06-10T02:30:00Z'' ''Maria'' ''Lazer'' Gasto 80 (Some ''Cinema''),
       mkRecord 2 ''2024-06-10T14:30:00Z'' ''Maria'' ''Lazer'' Gasto 30 None,
       mkRecord 3 ''2024-06-10T23:00:00Z'' ''Maria'' ''Mercado'' Gasto 25 (Some ''Feira''),
       mkRecord 4 ''2024-06-10T14:30:00Z'' ''Maria'' ''Extra'' Receita 450 None]) = [2, 3]
   \<and> \<not> allCriteriaHold rtBRT
         (clearFilters\<lparr>searchTerm := ''maria'', filterType := ''gasto'',
            dateFrom := ''2024-06-10'', dateTo := ''2024-06-10''\<rparr>)
         (mkRecord 1 ''2024-06-10T02:30:00Z'' ''Maria'' ''Lazer'' Gasto 80 (Some ''Cinema''))
   \<and> Date_new rtBRT ''2024-06-10T02:30:00Z'' = Some 1717986600000
   \<and> startOfDay rtBRT ''2024-06-10'' = Some 1717988400000
   \<and> endOfDay rtBRT ''2024-06-10'' = Some 1718074799000
   \<and> Date_new rtBRT ''2024-06-10'' = Some 1717977600000"
proof -
  let ?f = "clearFilters\<lparr>searchTerm := ''maria'', filterType := ''gasto'',
              dateFrom := ''2024-06-10'', dateTo := ''2024-06-10''\<rparr>"
  let ?r1 = "mkRecord 1 ''2024-06-10T02:30:00Z'' ''Maria'' ''Lazer'' Gasto 80 (Some ''Cinema'')"
  let ?r2 = "mkRecord 2 ''2024-06-10T14:30:00Z'' ''Maria'' ''Lazer'' Gasto 30 None"
  let ?r3 = "mkRecord 3 ''2024-06-10T23:00:00Z'' ''Maria'' ''Mercado'' Gasto 25 (Some ''Feira'')"
  let ?r4 = "mkRecord 4 ''2024-06-10T14:30:00Z'' ''Maria'' ''Extra'' Receita 450 None"
  have code: "map id_num (filteredRecords_RecordsList rtBRT [?r1, ?r2, ?r3, ?r4] ?f) = [3, 2, 1]"
    by (simp add: filter_defs clearFilters_def mkRecord_def parse_samples_Z criteria_samples)
  have ci: "ci_substring ''maria'' ''Maria''"
    by (simp add: ci_substring_def filter_defs str_includes_sublist [symmetric])
  have spec: "\<not> allCriteriaHold rtBRT ?f ?r1" "allCriteriaHold rtBRT ?f ?r2"
    "allCriteriaHold rtBRT ?f ?r3" "\<not> allCriteriaHold rtBRT ?f ?r4"
    by (simp_all add: allCriteriaHold_def clearFilters_def mkRecord_def ci date_ge_def
          date_le_def parse_samples_Z criteria_samples)
  have "map id_num (filter (allCriteriaHold rtBRT ?f) [?r1, ?r2, ?r3, ?r4]) = [2, 3]"
    by (simp add: spec) (simp add: mkRecord_def)
  with code spec(1) show ?thesis
    by (simp add: criteria_samples)
qed


section \<open>Grouping into an object: general facts\<close>
















section \<open>Properties of the arithmetic on doubles\<close>

















section \<open>Properties of the category grouping\<close>




















section \<open>Properties of the responsible-party grouping\<close>










text \<open>
  A party whose name is that of an inherited property gets no group: \<^verbatim>\<open>acc[key]\<close> is
  truthy from the start, and the sums are written to the inherited object.
\<close>

lemma responsible_inherited_name_dropped:
  "responsibleData
     [mkRecord 1 '''' ''constructor'' ''Lazer'' Gasto 25 None,
      mkRecord 2 '''' ''Ana'' ''Extra'' Receita 450 None]
   = [\<lparr>resp_name = ''Ana'', resp_receitas = 450, resp_gastos = 0\<rparr>]"
proof -
  have totals: "foldl responsibleStep []
     [mkRecord 1 '''' ''constructor'' ''Lazer'' Gasto 25 None,
      mkRecord 2 '''' ''Ana'' ''Extra'' Receita 450 None]
   = [(''Ana'', \<lparr>resp_name = ''Ana'', resp_receitas = 450, resp_gastos = 0\<rparr>)]"
    by (simp add: responsibleStep_def jsGet_def objectPrototypeKeys_def Let_def mkRecord_def)
  have idx: "\<not> isArrayIndex ''Ana''"
    by (simp add: isArrayIndex_def number_def isDigit_def)
  show ?thesis
    unfolding responsibleData_def totals Let_def by (simp add: Object_values_def idx)
qed

end
